theory Spec2Isabelle
  imports Main
begin

section \<open>The OCR extraction script \<^verbatim>\<open>ocr_extract.py\<close>\<close>

text \<open>
  The script imports two third-party libraries under an import guard, checks its
  command line and the image path, loads a pretrained model, runs it on the image,
  extracts a text from the model's result and prints one JSON envelope. Everything
  the script receives from outside (the command line, the interpreter's settings, the
  outcome of the imports, the file system, the model) is a field of an environment
  record; everything it does (the documents printed on the two output streams, the
  library calls made, the way the process ends) is a field of the run's result.
\<close>

subsection \<open>Python values\<close>

text \<open>
  The failures of the libraries and of the builtins are instances of \<^verbatim>\<open>Exception\<close>,
  each with the text that \<^verbatim>\<open>str(e)\<close> gives. The source names two classes in its
  handlers: \<^verbatim>\<open>ImportError\<close> (with its subclasses) and \<^verbatim>\<open>Exception\<close>, which
  \<open>OtherException\<close> completes: every instance of \<^verbatim>\<open>Exception\<close> that is not an
  \<^verbatim>\<open>ImportError\<close> (\<^verbatim>\<open>OSError\<close>, \<^verbatim>\<open>ValueError\<close>, \<^verbatim>\<open>TypeError\<close>, \<^verbatim>\<open>RuntimeError\<close>, ...).
\<close>

datatype pyexn = ImportError string | OtherException string

fun exn_str :: "pyexn \<Rightarrow> string" where
  "exn_str (ImportError m) = m"
| "exn_str (OtherException m) = m"

text \<open>A float is a finite number, given by the text of its \<^verbatim>\<open>repr\<close>, or one of the
  three values that are not numbers of JSON.\<close>

datatype pyfloat = Finite string | NaN | PosInf | NegInf

text \<open>
  The model's result is a dynamically typed value: an instance of one of the builtin
  classes, or
  \<^item> \<open>PyDictSub c items s r\<close>, an instance of a subclass \<open>c\<close> of \<^verbatim>\<open>dict\<close> (an
    \<^verbatim>\<open>OrderedDict\<close>, the model library's output class) with its items, which
    \<^verbatim>\<open>isinstance(result, dict)\<close> accepts and \<^verbatim>\<open>json.dumps\<close> writes as an object, or
  \<^item> \<open>PyObj c s r\<close>, an instance of any other class \<open>c\<close>, which derives from none of
    the classes above and which \<^verbatim>\<open>json.dumps\<close> does not know (a tensor, \<^verbatim>\<open>bytes\<close>).
  For both, \<open>s\<close> is what the object's \<^verbatim>\<open>__str__\<close> does and \<open>r\<close> what its \<^verbatim>\<open>__repr__\<close>
  does: each raises or returns a string. The items of a dictionary are in insertion
  order, and a subclass of \<^verbatim>\<open>dict\<close> keeps the \<^verbatim>\<open>get\<close> of \<^verbatim>\<open>dict\<close>. A string is an
  instance of \<^verbatim>\<open>str\<close> (or of a subclass, of which the script uses the characters
  only) over the code points below 256. No container contains itself.
\<close>

datatype pyval =
    PyNone
  | PyBool bool
  | PyInt int
  | PyFloat pyfloat
  | PyStr string
  | PyList "pyval list"
  | PyTuple "pyval list"
  | PyDict "(pyval \<times> pyval) list"
  | PyDictSub string "(pyval \<times> pyval) list" "pyexn + string" "pyexn + string"
  | PyObj string "pyexn + string" "pyexn + string"

subsection \<open>The builtins \<^verbatim>\<open>str\<close> and \<^verbatim>\<open>repr\<close>\<close>

definition join :: "string \<Rightarrow> string list \<Rightarrow> string" where
  "join sep xs = (case xs of [] \<Rightarrow> [] | y # ys \<Rightarrow> y @ concat (map (\<lambda>z. sep @ z) ys))"

definition digit_char :: "nat \<Rightarrow> char" where
  "digit_char n = ''0123456789abcdef'' ! (n mod 16)"

definition hex2 :: "char \<Rightarrow> string" where
  "hex2 c = [digit_char (of_char c div 16), digit_char (of_char c)]"

fun str_nat :: "nat \<Rightarrow> string" where
  "str_nat n = (if n < 10 then [digit_char n] else str_nat (n div 10) @ [digit_char (n mod 10)])"

declare str_nat.simps [simp del]

definition str_int :: "int \<Rightarrow> string" where
  "str_int i = (if i < 0 then CHR ''-'' # str_nat (nat (- i)) else str_nat (nat i))"

text \<open>
  The conversion of an integer to decimal text raises \<^verbatim>\<open>ValueError\<close> when the integer
  has more digits than the interpreter's limit \<^verbatim>\<open>sys.get_int_max_str_digits()\<close>, which
  is 4300 unless it was set otherwise, and 0 when there is no limit (as in the
  interpreters that have no such setting). It is behind
  \<^verbatim>\<open>str\<close> and \<^verbatim>\<open>repr\<close> of an integer and behind \<^verbatim>\<open>json.dumps\<close>. An integer has more
  than \<open>lim\<close> digits exactly when its absolute value is at least \<open>10 ^ lim\<close>.
\<close>

definition limit_message :: "nat \<Rightarrow> string" where
  "limit_message lim =
     ''Exceeds the limit ('' @ str_nat lim @ '' digits) for integer string conversion; ''
     @ ''use sys.set_int_max_str_digits() to increase the limit''"

definition int_repr :: "nat \<Rightarrow> int \<Rightarrow> pyexn + string" where
  "int_repr lim i =
     (if 0 < lim \<and> 10 ^ lim \<le> \<bar>i\<bar> then Inl (OtherException (limit_message lim))
      else Inr (str_int i))"

fun float_repr :: "pyfloat \<Rightarrow> string" where
  "float_repr (Finite r) = r"
| "float_repr NaN = ''nan''"
| "float_repr PosInf = ''inf''"
| "float_repr NegInf = ''-inf''"

text \<open>
  \<^verbatim>\<open>str.isprintable\<close> on the code points below 256: the ASCII range from the space
  to the tilde, and the Latin-1 range without the no-break space and the soft hyphen.
\<close>

definition printable :: "char \<Rightarrow> bool" where
  "printable c = (let n = (of_char c :: nat) in
     (32 \<le> n \<and> n < 127) \<or> (161 \<le> n \<and> n \<noteq> 173))"

text \<open>
  The \<^verbatim>\<open>repr\<close> of a string: double quotes when the string has a single quote and no
  double quote, single quotes otherwise; the quote and the backslash escaped, tab,
  newline and carriage return by letter, every other unprintable code point in hex.
\<close>

definition repr_char :: "char \<Rightarrow> char \<Rightarrow> string" where
  "repr_char quote c =
     (if c = quote \<or> c = CHR 0x5C then [CHR 0x5C, c]
      else if c = CHR 0x09 then [CHR 0x5C, CHR ''t'']
      else if c = CHR 0x0A then [CHR 0x5C, CHR ''n'']
      else if c = CHR 0x0D then [CHR 0x5C, CHR ''r'']
      else if printable c then [c]
      else [CHR 0x5C, CHR ''x''] @ hex2 c)"

definition repr_str :: "string \<Rightarrow> string" where
  "repr_str s =
     (let quote = (if CHR 0x27 \<in> set s \<and> CHR 0x22 \<notin> set s then CHR 0x22 else CHR 0x27)
      in [quote] @ concat (map (repr_char quote) s) @ [quote])"

text \<open>The first exception of a sequence of evaluations, or all their results.\<close>

fun collect :: "(pyexn + 'a) list \<Rightarrow> pyexn + 'a list" where
  "collect [] = Inr []"
| "collect (Inl e # rs) = Inl e"
| "collect (Inr x # rs) = (case collect rs of Inl e \<Rightarrow> Inl e | Inr xs \<Rightarrow> Inr (x # xs))"

definition repr_item :: "(pyexn + string) \<times> (pyexn + string) \<Rightarrow> pyexn + string" where
  "repr_item kv =
     (case fst kv of
        Inl e \<Rightarrow> Inl e
      | Inr k \<Rightarrow> (case snd kv of Inl e \<Rightarrow> Inl e | Inr v \<Rightarrow> Inr (k @ '': '' @ v)))"

text \<open>
  \<^verbatim>\<open>repr(x)\<close>. A container takes the \<^verbatim>\<open>repr\<close> of its elements in order (of a key, then
  of its value) and raises what the first of them raises.
\<close>

primrec py_repr :: "nat \<Rightarrow> pyval \<Rightarrow> pyexn + string" where
  "py_repr lim PyNone = Inr ''None''"
| "py_repr lim (PyBool b) = Inr (if b then ''True'' else ''False'')"
| "py_repr lim (PyInt i) = int_repr lim i"
| "py_repr lim (PyFloat f) = Inr (float_repr f)"
| "py_repr lim (PyStr s) = Inr (repr_str s)"
| "py_repr lim (PyList xs) =
     (case collect (map (py_repr lim) xs) of
        Inl e \<Rightarrow> Inl e
      | Inr ys \<Rightarrow> Inr (''['' @ join '', '' ys @ '']''))"
| "py_repr lim (PyTuple xs) =
     (case collect (map (py_repr lim) xs) of
        Inl e \<Rightarrow> Inl e
      | Inr ys \<Rightarrow> Inr (''('' @ join '', '' ys @ (if length ys = 1 then '','' else []) @ '')''))"
| "py_repr lim (PyDict kvs) =
     (case collect (map repr_item (map (map_prod (py_repr lim) (py_repr lim)) kvs)) of
        Inl e \<Rightarrow> Inl e
      | Inr ys \<Rightarrow> Inr (''{'' @ join '', '' ys @ ''}''))"
| "py_repr lim (PyDictSub c kvs s r) = r"
| "py_repr lim (PyObj c s r) = r"

text \<open>
  \<^verbatim>\<open>str(x)\<close>: a string is itself, an object answers with its \<^verbatim>\<open>__str__\<close>, and the
  other builtin classes have no \<^verbatim>\<open>__str__\<close> of their own and fall back on \<^verbatim>\<open>repr\<close>.
\<close>

fun py_str :: "nat \<Rightarrow> pyval \<Rightarrow> pyexn + string" where
  "py_str lim (PyStr s) = Inr s"
| "py_str lim (PyDictSub c kvs s r) = s"
| "py_str lim (PyObj c s r) = s"
| "py_str lim v = py_repr lim v"

subsection \<open>\<^verbatim>\<open>json.dumps\<close>\<close>

text \<open>
  \<^verbatim>\<open>json.dumps\<close> with its defaults: \<^verbatim>\<open>ensure_ascii\<close> escapes every code point
  outside the range from the space to the tilde, the separators are \<^verbatim>\<open>", "\<close> and
  \<^verbatim>\<open>": "\<close>, and \<^verbatim>\<open>allow_nan\<close> writes the floats that are not numbers as \<^verbatim>\<open>NaN\<close>,
  \<^verbatim>\<open>Infinity\<close> and \<^verbatim>\<open>-Infinity\<close>, which are not JSON. A tuple is written as an array, a
  dictionary of any subclass as an object. It raises \<^verbatim>\<open>TypeError\<close> at the first
  dictionary key that is not a string, a number, a boolean or \<^verbatim>\<open>None\<close> and at the first
  value of a class it does not know, and \<^verbatim>\<open>ValueError\<close> at an integer over the limit.
\<close>

definition json_escape_char :: "char \<Rightarrow> string" where
  "json_escape_char c =
     (if c = CHR 0x22 then [CHR 0x5C, CHR 0x22]
      else if c = CHR 0x5C then [CHR 0x5C, CHR 0x5C]
      else if c = CHR 0x0A then [CHR 0x5C, CHR ''n'']
      else if c = CHR 0x0D then [CHR 0x5C, CHR ''r'']
      else if c = CHR 0x09 then [CHR 0x5C, CHR ''t'']
      else if c = CHR 0x08 then [CHR 0x5C, CHR ''b'']
      else if c = CHR 0x0C then [CHR 0x5C, CHR ''f'']
      else if 32 \<le> (of_char c :: nat) \<and> (of_char c :: nat) < 127 then [c]
      else [CHR 0x5C, CHR ''u'', CHR ''0'', CHR ''0''] @ hex2 c)"

definition json_string :: "string \<Rightarrow> string" where
  "json_string s = [CHR 0x22] @ concat (map json_escape_char s) @ [CHR 0x22]"

fun json_float :: "pyfloat \<Rightarrow> string" where
  "json_float (Finite r) = r"
| "json_float NaN = ''NaN''"
| "json_float PosInf = ''Infinity''"
| "json_float NegInf = ''-Infinity''"

fun type_name :: "pyval \<Rightarrow> string" where
  "type_name PyNone = ''NoneType''"
| "type_name (PyBool b) = ''bool''"
| "type_name (PyInt i) = ''int''"
| "type_name (PyFloat f) = ''float''"
| "type_name (PyStr s) = ''str''"
| "type_name (PyList xs) = ''list''"
| "type_name (PyTuple xs) = ''tuple''"
| "type_name (PyDict kvs) = ''dict''"
| "type_name (PyDictSub c kvs s r) = c"
| "type_name (PyObj c s r) = c"

fun json_key :: "nat \<Rightarrow> pyval \<Rightarrow> pyexn + string" where
  "json_key lim (PyStr s) = Inr (json_string s)"
| "json_key lim (PyFloat f) = Inr (json_string (json_float f))"
| "json_key lim (PyBool b) = Inr (json_string (if b then ''true'' else ''false''))"
| "json_key lim PyNone = Inr (json_string ''null'')"
| "json_key lim (PyInt i) =
     (case int_repr lim i of Inl e \<Rightarrow> Inl e | Inr t \<Rightarrow> Inr (json_string t))"
| "json_key lim k =
     Inl (OtherException (''keys must be str, int, float, bool or None, not '' @ type_name k))"

definition json_item :: "nat \<Rightarrow> pyval \<times> (pyexn + string) \<Rightarrow> pyexn + string" where
  "json_item lim kv =
     (case json_key lim (fst kv) of
        Inl e \<Rightarrow> Inl e
      | Inr k \<Rightarrow> (case snd kv of Inl e \<Rightarrow> Inl e | Inr v \<Rightarrow> Inr (k @ '': '' @ v)))"

definition json_array :: "(pyexn + string) list \<Rightarrow> pyexn + string" where
  "json_array rs =
     (case collect rs of Inl e \<Rightarrow> Inl e | Inr ys \<Rightarrow> Inr (''['' @ join '', '' ys @ '']''))"

definition json_object :: "(pyexn + string) list \<Rightarrow> pyexn + string" where
  "json_object rs =
     (case collect rs of Inl e \<Rightarrow> Inl e | Inr ys \<Rightarrow> Inr (''{'' @ join '', '' ys @ ''}''))"

primrec json_dumps :: "nat \<Rightarrow> pyval \<Rightarrow> pyexn + string" where
  "json_dumps lim PyNone = Inr ''null''"
| "json_dumps lim (PyBool b) = Inr (if b then ''true'' else ''false'')"
| "json_dumps lim (PyInt i) = int_repr lim i"
| "json_dumps lim (PyFloat f) = Inr (json_float f)"
| "json_dumps lim (PyStr s) = Inr (json_string s)"
| "json_dumps lim (PyList xs) = json_array (map (json_dumps lim) xs)"
| "json_dumps lim (PyTuple xs) = json_array (map (json_dumps lim) xs)"
| "json_dumps lim (PyDict kvs) =
     json_object (map (json_item lim) (map (map_prod id (json_dumps lim)) kvs))"
| "json_dumps lim (PyDictSub c kvs s r) =
     json_object (map (json_item lim) (map (map_prod id (json_dumps lim)) kvs))"
| "json_dumps lim (PyObj c s r) =
     Inl (OtherException (''Object of type '' @ c @ '' is not JSON serializable''))"

subsection \<open>\<^verbatim>\<open>pathlib\<close>\<close>

text \<open>
  \<^verbatim>\<open>str(Path(s))\<close> on a POSIX system: the separators at the front give the root (two
  of them are kept, any other number is one), the empty components and the
  components \<^verbatim>\<open>.\<close> are dropped, and nothing at all is the current directory.
\<close>

fun split_on :: "char \<Rightarrow> string \<Rightarrow> string list" where
  "split_on c [] = [[]]"
| "split_on c (x # xs) =
     (if x = c then [] # split_on c xs
      else (case split_on c xs of [] \<Rightarrow> [[x]] | y # ys \<Rightarrow> (x # y) # ys))"

definition pathlib_str :: "string \<Rightarrow> string" where
  "pathlib_str s =
     (let rel = dropWhile (\<lambda>c. c = CHR ''/'') s;
          n = length s - length rel;
          root = (if n = 0 then [] else if n = 2 then ''//'' else ''/'');
          parts = filter (\<lambda>x. x \<noteq> [] \<and> x \<noteq> ''.'') (split_on CHR ''/'' rel);
          body = root @ join ''/'' parts
      in if body = [] then ''.'' else body)"

text \<open>
  What \<^verbatim>\<open>os.stat\<close> does on a path: it returns, it raises \<^verbatim>\<open>OSError\<close> with an error
  number and a text, or it raises \<^verbatim>\<open>ValueError\<close> for a path that cannot be encoded (one
  with a null character).
\<close>

datatype errno = ENOENT | ENOTDIR | EBADF | ELOOP | EACCES | ENAMETOOLONG | Errno nat

datatype stat_result = StatOk | StatOSError errno string | StatValueError

text \<open>\<^verbatim>\<open>pathlib._ignore_error\<close>: the error numbers that mean the path is not there.\<close>

fun ignore_error :: "errno \<Rightarrow> bool" where
  "ignore_error ENOENT = True"
| "ignore_error ENOTDIR = True"
| "ignore_error EBADF = True"
| "ignore_error ELOOP = True"
| "ignore_error en = False"

subsection \<open>The environment and the run\<close>

text \<open>
  The environment of one invocation: \<^verbatim>\<open>sys.argv\<close>; the interpreter's limit on the
  digits of an integer; whether \<^verbatim>\<open>sys.stderr\<close> is a stream (it is \<^verbatim>\<open>None\<close> when the
  process starts with descriptor 2 closed); what the two guarded \<^verbatim>\<open>import\<close> statements
  do (\<open>None\<close> when the import succeeds); the file system as \<^verbatim>\<open>os.stat\<close> sees it; and
  the two libraries: \<^verbatim>\<open>AutoModel.from_pretrained\<close> on the fixed identifier raises or
  returns a callable model, \<^verbatim>\<open>Image.open\<close> raises or returns an image.

  Standard output is taken to be open, and a stream that is open to accept what is
  written to it.
  Interrupts and requests to exit raised inside the libraries are not failures and are
  not part of the environment, and the limits on memory and on the depth of recursion
  are left out.
\<close>

record 'img env =
  argv :: "string list"
  int_max_str_digits :: nat
  stderr_open :: bool
  import_transformers :: "pyexn option"
  import_PIL :: "pyexn option"
  os_stat :: "string \<Rightarrow> stat_result"
  from_pretrained :: "pyexn + ('img \<Rightarrow> pyexn + pyval)"
  image_open :: "string \<Rightarrow> pyexn + 'img"

text \<open>
  What a run does: the documents written to standard output and to standard error, one
  per \<^verbatim>\<open>print(json.dumps(...))\<close>, in order, and the library calls made. The text of a
  written document is its \<open>json_dumps\<close>. A run ends by \<^verbatim>\<open>sys.exit(n)\<close>, by reaching
  the end of the script (status 0), or by an exception that no handler catches, for
  which the interpreter prints a traceback and exits with status 1.
\<close>

datatype call = FromPretrained | ImageOpen string | ModelCall

datatype outcome = Exit int | Uncaught pyexn

record io =
  stdout :: "pyval list"
  stderr :: "pyval list"
  calls :: "call list"

record run = io +
  status :: outcome

fun exit_status :: "outcome \<Rightarrow> int" where
  "exit_status (Exit n) = n"
| "exit_status (Uncaught e) = 1"

definition json_text :: "nat \<Rightarrow> pyval \<Rightarrow> string" where
  "json_text lim obj = (case json_dumps lim obj of Inl e \<Rightarrow> [] | Inr t \<Rightarrow> t)"

definition stdout_text :: "'img env \<Rightarrow> run \<Rightarrow> string list" where
  "stdout_text E r = map (json_text (int_max_str_digits E)) (stdout r)"

definition finish :: "io \<Rightarrow> outcome \<Rightarrow> run" where
  "finish s t = \<lparr>stdout = stdout s, stderr = stderr s, calls = calls s, status = t\<rparr>"

text \<open>\<^verbatim>\<open>print(json.dumps(obj))\<close>.\<close>

definition print_stdout :: "'img env \<Rightarrow> pyval \<Rightarrow> io \<Rightarrow> pyexn + io" where
  "print_stdout E obj s =
     (case json_dumps (int_max_str_digits E) obj of
        Inl e \<Rightarrow> Inl e
      | Inr t \<Rightarrow> Inr (s\<lparr>stdout := stdout s @ [obj]\<rparr>))"

text \<open>\<^verbatim>\<open>print(json.dumps(obj), file=sys.stderr)\<close>: with \<^verbatim>\<open>file=None\<close>, which is what
  \<^verbatim>\<open>sys.stderr\<close> is when descriptor 2 is closed, \<^verbatim>\<open>print\<close> writes to \<^verbatim>\<open>sys.stdout\<close>.\<close>

definition print_stderr :: "'img env \<Rightarrow> pyval \<Rightarrow> io \<Rightarrow> pyexn + io" where
  "print_stderr E obj s =
     (case json_dumps (int_max_str_digits E) obj of
        Inl e \<Rightarrow> Inl e
      | Inr t \<Rightarrow>
          Inr (if stderr_open E then s\<lparr>stderr := stderr s @ [obj]\<rparr>
               else s\<lparr>stdout := stdout s @ [obj]\<rparr>))"

definition error_envelope :: "string \<Rightarrow> pyval" where
  "error_envelope m = PyDict [(PyStr ''error'', PyStr m)]"

definition text_envelope :: "pyval \<Rightarrow> pyval" where
  "text_envelope v = PyDict [(PyStr ''text'', v)]"

definition status_envelope :: "string \<Rightarrow> pyval" where
  "status_envelope m = PyDict [(PyStr ''status'', PyStr m)]"

text \<open>\<^verbatim>\<open>print(json.dumps({"error": m})); sys.exit(1)\<close>. The source does this where
  no handler is active, so an exception of \<^verbatim>\<open>json.dumps\<close> would be left uncaught;
  \<open>error_exit_run\<close> below shows that there is none.\<close>

definition error_exit :: "'img env \<Rightarrow> string \<Rightarrow> io \<Rightarrow> run" where
  "error_exit E m s =
     (case print_stdout E (error_envelope m) s of
        Inl e \<Rightarrow> finish s (Uncaught e)
      | Inr s' \<Rightarrow> finish s' (Exit 1))"

subsection \<open>The script\<close>

text \<open>
  \<^verbatim>\<open>Path(image_path).exists()\<close>, line 25: \<^verbatim>\<open>os.stat\<close> on the path as \<^verbatim>\<open>pathlib\<close>
  writes it; an \<^verbatim>\<open>OSError\<close> whose number is ignored and a \<^verbatim>\<open>ValueError\<close> give
  \<^verbatim>\<open>False\<close>, any other \<^verbatim>\<open>OSError\<close> is raised again.
\<close>

definition path_exists :: "'img env \<Rightarrow> string \<Rightarrow> pyexn + bool" where
  "path_exists E image_path =
     (case os_stat E (pathlib_str image_path) of
        StatOk \<Rightarrow> Inr True
      | StatOSError en m \<Rightarrow> (if ignore_error en then Inr False else Inl (OtherException m))
      | StatValueError \<Rightarrow> Inr False)"

text \<open>\<^verbatim>\<open>d.get(k, dflt)\<close> on the items of a dictionary, the default already evaluated.\<close>

definition dict_get :: "(pyval \<times> pyval) list \<Rightarrow> pyval \<Rightarrow> pyval \<Rightarrow> pyval" where
  "dict_get d k dflt = (case map_of d k of None \<Rightarrow> dflt | Some v \<Rightarrow> v)"

text \<open>
  The extraction of the text from the model's result, lines 41 to 46:
  \<^verbatim>\<open>
  if isinstance(result, dict):
      text = result.get("text", str(result))
  elif isinstance(result, str):
      text = result
  else:
      text = str(result)
  \<close>
  The argument \<^verbatim>\<open>str(result)\<close> of \<^verbatim>\<open>get\<close> is evaluated before the call, whether the
  key is there or not.
\<close>

fun extract_text :: "nat \<Rightarrow> pyval \<Rightarrow> pyexn + pyval" where
  "extract_text lim (PyDict d) =
     (case py_str lim (PyDict d) of
        Inl e \<Rightarrow> Inl e
      | Inr s \<Rightarrow> Inr (dict_get d (PyStr ''text'') (PyStr s)))"
| "extract_text lim (PyDictSub c d s r) =
     (case py_str lim (PyDictSub c d s r) of
        Inl e \<Rightarrow> Inl e
      | Inr s' \<Rightarrow> Inr (dict_get d (PyStr ''text'') (PyStr s')))"
| "extract_text lim (PyStr s) = Inr (PyStr s)"
| "extract_text lim result =
     (case py_str lim result of Inl e \<Rightarrow> Inl e | Inr s \<Rightarrow> Inr (PyStr s))"

text \<open>
  The body of the \<^verbatim>\<open>try\<close> statement of \<^verbatim>\<open>main\<close>, lines 30 to 50. It returns the
  streams as the body left them and the exception that ended it, if one did.
\<close>

definition try_body :: "'img env \<Rightarrow> string \<Rightarrow> io \<Rightarrow> io \<times> pyexn option" where
  "try_body E image_path s0 =
     (case print_stderr E (status_envelope ''Loading DeepSeek-OCR model...'') s0 of
        Inl e \<Rightarrow> (s0, Some e)
      | Inr s1 \<Rightarrow>
          let s2 = s1\<lparr>calls := calls s1 @ [FromPretrained]\<rparr> in
          (case from_pretrained E of
             Inl e \<Rightarrow> (s2, Some e)
           | Inr model \<Rightarrow>
               (case print_stderr E (status_envelope ''Processing image...'') s2 of
                  Inl e \<Rightarrow> (s2, Some e)
                | Inr s3 \<Rightarrow>
                    let s4 = s3\<lparr>calls := calls s3 @ [ImageOpen image_path]\<rparr> in
                    (case image_open E image_path of
                       Inl e \<Rightarrow> (s4, Some e)
                     | Inr img \<Rightarrow>
                         let s5 = s4\<lparr>calls := calls s4 @ [ModelCall]\<rparr> in
                         (case model img of
                            Inl e \<Rightarrow> (s5, Some e)
                          | Inr result \<Rightarrow>
                              (case extract_text (int_max_str_digits E) result of
                                 Inl e \<Rightarrow> (s5, Some e)
                               | Inr text \<Rightarrow>
                                   let output = text_envelope text
                                   in (case print_stdout E output s5 of
                                         Inl e \<Rightarrow> (s5, Some e)
                                       | Inr s6 \<Rightarrow> (s6, None))))))))"

text \<open>
  \<^verbatim>\<open>main\<close>, lines 18 to 54: the argument check, the existence check, which no
  handler covers, and the \<^verbatim>\<open>try\<close> statement with its handler for \<^verbatim>\<open>Exception\<close>,
  which both classes of \<open>pyexn\<close> are instances of.
\<close>

definition main :: "'img env \<Rightarrow> io \<Rightarrow> run" where
  "main E s0 =
     (if length (argv E) < 2 then
        error_exit E ''Usage: python3 ocr_extract.py <image_path>'' s0
      else
        let image_path = argv E ! 1 in
        (case path_exists E image_path of
           Inl e \<Rightarrow> finish s0 (Uncaught e)
         | Inr found \<Rightarrow>
             if \<not> found then error_exit E (''Image file not found: '' @ image_path) s0
             else
               (case try_body E image_path s0 of
                  (s, None) \<Rightarrow> finish s (Exit 0)
                | (s, Some e) \<Rightarrow>
                    error_exit E (''OCR processing failed: '' @ exn_str e) s)))"

text \<open>
  The import guard, lines 11 to 16: its handler catches \<^verbatim>\<open>ImportError\<close> only, and any
  other exception of an import leaves the script uncaught.
\<close>

fun import_handler :: "'img env \<Rightarrow> pyexn \<Rightarrow> io \<Rightarrow> run" where
  "import_handler E (ImportError m) s =
     error_exit E (''Missing dependencies: '' @ m
                   @ ''. Install with: pip install transformers pillow torch'') s"
| "import_handler E (OtherException m) s = finish s (Uncaught (OtherException m))"

definition import_failure :: "'img env \<Rightarrow> pyexn option" where
  "import_failure E =
     (case import_transformers E of Some e \<Rightarrow> Some e | None \<Rightarrow> import_PIL E)"

definition io0 :: io where
  "io0 = \<lparr>stdout = [], stderr = [], calls = []\<rparr>"

text \<open>The script, run as \<^verbatim>\<open>__main__\<close>: the import guard, then \<^verbatim>\<open>main()\<close>.\<close>

definition script :: "'img env \<Rightarrow> run" where
  "script E =
     (case import_failure E of
        Some e \<Rightarrow> import_handler E e io0
      | None \<Rightarrow> main E io0)"

subsection \<open>Vocabulary of the specification\<close>

text \<open>
  The invocation passes the startup check, the argument check and the existence check,
  so that \<^verbatim>\<open>main\<close> enters its \<^verbatim>\<open>try\<close> statement.
\<close>

definition passes_checks :: "'img env \<Rightarrow> bool" where
  "passes_checks E \<longleftrightarrow>
     import_transformers E = None \<and> import_PIL E = None \<and> 2 \<le> length (argv E) \<and>
     path_exists E (argv E ! 1) = Inr True"

text \<open>What model load, image decode and inference yield on an image path, in the
  order of the source: the first exception, or the model's result.\<close>

definition inference :: "'img env \<Rightarrow> string \<Rightarrow> pyexn + pyval" where
  "inference E image_path =
     (case from_pretrained E of
        Inl e \<Rightarrow> Inl e
      | Inr model \<Rightarrow>
          (case image_open E image_path of
             Inl e \<Rightarrow> Inl e
           | Inr img \<Rightarrow> model img))"

text \<open>The exception that ends the \<^verbatim>\<open>try\<close> body of the invocation, if one does.\<close>

definition raised :: "'img env \<Rightarrow> pyexn option" where
  "raised E = snd (try_body E (argv E ! 1) io0)"

text \<open>
  The status messages of the \<^verbatim>\<open>try\<close> body that land on standard output: none when
  \<^verbatim>\<open>sys.stderr\<close> is a stream; otherwise the first one, and the second one as well
  once the model is loaded.
\<close>

definition diverted :: "'img env \<Rightarrow> pyval list" where
  "diverted E =
     (if stderr_open E then []
      else (case from_pretrained E of
              Inl e \<Rightarrow> [status_envelope ''Loading DeepSeek-OCR model...'']
            | Inr model \<Rightarrow>
                [status_envelope ''Loading DeepSeek-OCR model...'',
                 status_envelope ''Processing image...'']))"

fun is_string :: "pyval \<Rightarrow> bool" where
  "is_string (PyStr s) = True"
| "is_string v = False"

fun is_mapping :: "pyval \<Rightarrow> bool" where
  "is_mapping (PyDict d) = True"
| "is_mapping (PyDictSub c d s r) = True"
| "is_mapping v = False"

fun field :: "string \<Rightarrow> pyval \<Rightarrow> pyval option" where
  "field k (PyDict d) = map_of d (PyStr k)"
| "field k (PyDictSub c d s r) = map_of d (PyStr k)"
| "field k v = None"

text \<open>
  The normalization as the specification words it, given the string representation
  \<open>repr\<close> of the result: a mapping gives its \<^verbatim>\<open>text\<close> field if present and its full
  string representation otherwise; a string is used directly; any other value gives
  its string representation.
\<close>

definition spec_normalize :: "pyval \<Rightarrow> string \<Rightarrow> pyval" where
  "spec_normalize result repr =
     (if is_mapping result then
        (case field ''text'' result of Some v \<Rightarrow> v | None \<Rightarrow> PyStr repr)
      else if is_string result then result
      else PyStr repr)"

text \<open>
  The standard output contract as the specification words it: exactly one JSON object,
  of shape \<^verbatim>\<open>{"text": string}\<close> or \<^verbatim>\<open>{"error": string}\<close>.
\<close>

fun string_envelope :: "pyval \<Rightarrow> bool" where
  "string_envelope (PyDict [(PyStr k, PyStr v)]) = (k = ''text'' \<or> k = ''error'')"
| "string_envelope obj = False"

definition stdout_contract :: "run \<Rightarrow> bool" where
  "stdout_contract r = (case stdout r of [obj] \<Rightarrow> string_envelope obj | _ \<Rightarrow> False)"

text \<open>
  The same contract with any value under \<^verbatim>\<open>text\<close>: exactly one object with exactly
  one key, \<^verbatim>\<open>{"text": value}\<close> or \<^verbatim>\<open>{"error": string}\<close>.
\<close>

fun envelope :: "pyval \<Rightarrow> bool" where
  "envelope (PyDict [(PyStr k, v)]) = (k = ''text'' \<or> (k = ''error'' \<and> is_string v))"
| "envelope obj = False"

definition one_envelope :: "run \<Rightarrow> bool" where
  "one_envelope r = (case stdout r of [obj] \<Rightarrow> envelope obj | _ \<Rightarrow> False)"

fun has_key :: "string \<Rightarrow> pyval \<Rightarrow> bool" where
  "has_key k (PyDict d) = (PyStr k \<in> set (map fst d))"
| "has_key k obj = False"

text \<open>
  The exit code contract as the specification words it: status 0 exactly when an object
  with the \<^verbatim>\<open>text\<close> key is on standard output, a non-zero status exactly when an
  object with the \<^verbatim>\<open>error\<close> key is.
\<close>

definition exit_contract :: "run \<Rightarrow> bool" where
  "exit_contract r \<longleftrightarrow>
     (exit_status (status r) = 0) = list_ex (has_key ''text'') (stdout r) \<and>
     (exit_status (status r) \<noteq> 0) = list_ex (has_key ''error'') (stdout r)"

text \<open>An import raises an exception that the import guard does not catch: the first
  import does, or the first succeeds and the second does.\<close>

definition import_crash :: "'img env \<Rightarrow> bool" where
  "import_crash E =
     (case import_transformers E of
        Some (OtherException m) \<Rightarrow> True
      | Some (ImportError m) \<Rightarrow> False
      | None \<Rightarrow> (case import_PIL E of Some (OtherException m) \<Rightarrow> True | _ \<Rightarrow> False))"

text \<open>The existence check is reached and \<^verbatim>\<open>Path.exists\<close> raises.\<close>

definition exists_crash :: "'img env \<Rightarrow> bool" where
  "exists_crash E =
     (import_transformers E = None \<and> import_PIL E = None \<and> 2 \<le> length (argv E) \<and>
      (case path_exists E (argv E ! 1) of Inl e \<Rightarrow> True | Inr found \<Rightarrow> False))"

text \<open>The model's result, when the run reaches one, has no \<^verbatim>\<open>text\<close> field or a
  string there (every result that is not a mapping has none).\<close>

definition text_field_is_string :: "'img env \<Rightarrow> bool" where
  "text_field_is_string E =
     (if passes_checks E then
        (case inference E (argv E ! 1) of
           Inl e \<Rightarrow> True
         | Inr result \<Rightarrow> (case field ''text'' result of None \<Rightarrow> True | Some v \<Rightarrow> is_string v))
      else True)"

subsection \<open>Example invocations\<close>

text \<open>
  A file system with the image \<^verbatim>\<open>/tmp/shot.png\<close> and the current directory, on which
  a path of more than 255 characters is refused and any other path is not found.
\<close>

definition demo_stat :: "string \<Rightarrow> stat_result" where
  "demo_stat p =
     (if p = ''/tmp/shot.png'' \<or> p = ''.'' then StatOk
      else if 255 < length p then
        StatOSError ENAMETOOLONG (''[Errno 36] File name too long: '' @ repr_str p)
      else StatOSError ENOENT (''[Errno 2] No such file or directory: '' @ repr_str p))"

definition demo_open :: "string \<Rightarrow> pyexn + unit" where
  "demo_open p =
     (if p = ''/tmp/shot.png'' then Inr ()
      else Inl (OtherException (''[Errno 2] No such file or directory: '' @ repr_str p)))"

text \<open>
  \<^verbatim>\<open>python3 ocr_extract.py /tmp/shot.png\<close> with both libraries installed, the default
  limit on the digits of an integer, the standard streams open, and a model whose
  call on the image has the given outcome.
\<close>

definition demo_env :: "pyexn + pyval \<Rightarrow> unit env" where
  "demo_env out =
     \<lparr>argv = [''ocr_extract.py'', ''/tmp/shot.png''],
      int_max_str_digits = 4300,
      stderr_open = True,
      import_transformers = None,
      import_PIL = None,
      os_stat = demo_stat,
      from_pretrained = Inr (\<lambda>img. out),
      image_open = demo_open\<rparr>"

text \<open>The text of the exception on a machine where \<^verbatim>\<open>transformers\<close> is not installed,
  and of the one where its import fails with a \<^verbatim>\<open>RuntimeError\<close>.\<close>

definition missing_transformers :: pyexn where
  "missing_transformers = ImportError (''No module named '' @ [CHR 0x27] @ ''transformers'' @ [CHR 0x27])"

definition missing_PIL :: pyexn where
  "missing_PIL = ImportError (''No module named '' @ [CHR 0x27] @ ''PIL'' @ [CHR 0x27])"

definition broken_transformers :: pyexn where
  "broken_transformers = OtherException ''Failed to import transformers.models.auto''"

text \<open>\<^verbatim>\<open>python3 ocr_extract.py\<close> with no argument, with the path
  \<^verbatim>\<open>/tmp/does-not-exist.png\<close>, with the empty path, and with a path of 256 letters.\<close>

definition bare_env :: "unit env" where
  "bare_env = (demo_env (Inr PyNone))\<lparr>argv := [''ocr_extract.py'']\<rparr>"

definition absent_env :: "unit env" where
  "absent_env =
     (demo_env (Inr PyNone))\<lparr>argv := [''ocr_extract.py'', ''/tmp/does-not-exist.png'']\<rparr>"

definition empty_path_env :: "unit env" where
  "empty_path_env = (demo_env (Inr PyNone))\<lparr>argv := [''ocr_extract.py'', []]\<rparr>"

definition long_path_env :: "unit env" where
  "long_path_env =
     (demo_env (Inr PyNone))\<lparr>argv := [''ocr_extract.py'', replicate 256 CHR ''a'']\<rparr>"

text \<open>Results of the model: an object of a class of its library, an \<^verbatim>\<open>OrderedDict\<close>,
  and a dictionary with a \<^verbatim>\<open>text\<close> field and an integer of 4301 digits.\<close>

definition tensor :: pyval where
  "tensor = PyObj ''Tensor'' (Inr ''tensor([7])'') (Inr ''tensor([7])'')"


definition huge :: int where
  "huge = 10 ^ 4300"

definition big_dict :: pyval where
  "big_dict = PyDict [(PyStr ''text'', PyStr ''hi''), (PyStr ''n'', PyInt huge)]"

section \<open>Properties\<close>

subsection \<open>Printing the envelopes\<close>

lemma json_dumps_error_envelope:
  \<open>json_dumps lim (error_envelope m) = Inr (''{"error": '' @ json_string m @ ''}'')\<close>
  by (simp add: error_envelope_def json_object_def json_item_def join_def json_string_def
      json_escape_char_def)

lemma json_dumps_status_envelope:
  \<open>json_dumps lim (status_envelope m) = Inr (''{"status": '' @ json_string m @ ''}'')\<close>
  by (simp add: status_envelope_def json_object_def json_item_def join_def json_string_def
      json_escape_char_def)

lemma json_dumps_text_envelope:
  \<open>json_dumps lim (text_envelope v) =
     (case json_dumps lim v of Inl e \<Rightarrow> Inl e | Inr t \<Rightarrow> Inr (''{"text": '' @ t @ ''}''))\<close>
  by (simp add: text_envelope_def json_object_def json_item_def join_def json_string_def
      json_escape_char_def split: sum.splits)

lemma print_stdout_error_envelope:
  "print_stdout E (error_envelope m) s = Inr (s\<lparr>stdout := stdout s @ [error_envelope m]\<rparr>)"
  by (simp add: print_stdout_def json_dumps_error_envelope)

lemma print_stderr_status_envelope:
  "print_stderr E (status_envelope m) s =
     Inr (if stderr_open E then s\<lparr>stderr := stderr s @ [status_envelope m]\<rparr>
          else s\<lparr>stdout := stdout s @ [status_envelope m]\<rparr>)"
  by (simp add: print_stderr_def json_dumps_status_envelope)

lemma error_exit_run:
  "error_exit E m s =
     \<lparr>stdout = stdout s @ [error_envelope m], stderr = stderr s, calls = calls s,
      status = Exit 1\<rparr>"
  by (simp add: error_exit_def print_stdout_error_envelope finish_def)

lemma json_text_error_envelope:
  \<open>json_text lim (error_envelope m) = ''{"error": '' @ json_string m @ ''}''\<close>
  by (simp add: json_text_def json_dumps_error_envelope)

lemma json_text_text_envelope:
  \<open>json_dumps lim v = Inr t \<Longrightarrow> json_text lim (text_envelope v) = ''{"text": '' @ t @ ''}''\<close>
  by (simp add: json_text_def json_dumps_text_envelope)

lemma stdout_text_single:
  "stdout r = [obj] \<Longrightarrow> stdout_text E r = [json_text (int_max_str_digits E) obj]"
  by (simp add: stdout_text_def)

lemma string_envelope_error: "string_envelope (error_envelope m)"
  by (simp add: error_envelope_def)

lemma string_envelope_text: "is_string v \<Longrightarrow> string_envelope (text_envelope v)"
  by (cases v) (simp_all add: text_envelope_def)

lemma envelope_error: "envelope (error_envelope m)"
  by (simp add: error_envelope_def)

lemma envelope_text: "envelope (text_envelope v)"
  by (simp add: text_envelope_def)

lemma has_key_status:
  "\<not> has_key ''text'' (status_envelope m)" "\<not> has_key ''error'' (status_envelope m)"
  by (simp_all add: status_envelope_def)

lemma list_ex_diverted:
  "\<not> list_ex (has_key ''text'') (diverted E)" "\<not> list_ex (has_key ''error'') (diverted E)"
  by (simp_all add: diverted_def has_key_status split: sum.splits)

lemma diverted_open: "stderr_open E \<Longrightarrow> diverted E = []"
  by (simp add: diverted_def)

subsection \<open>The extraction of the text\<close>

lemma py_str_string: "is_string result \<Longrightarrow> \<exists>s. py_str lim result = Inr s"
  by (cases result) simp_all

lemma extract_text_returns:
  "py_str lim result = Inr s \<Longrightarrow> extract_text lim result = Inr (spec_normalize result s)"
  by (cases result) (simp_all add: spec_normalize_def dict_get_def split: option.splits)

lemma extract_text_raises:
  "py_str lim result = Inl e \<Longrightarrow> extract_text lim result = Inl e"
  by (cases result) simp_all

lemma extract_text_Inl: "extract_text lim result = Inl e \<longleftrightarrow> py_str lim result = Inl e"
  by (cases "py_str lim result") (simp_all add: extract_text_returns extract_text_raises)

lemma extract_text_value:
  assumes "extract_text lim result = Inr v"
  shows "is_string v \<or> (field ''text'' result = Some v \<and> \<not> is_string v)"
proof -
  obtain s where "py_str lim result = Inr s"
    using assms by (cases "py_str lim result") (simp_all add: extract_text_raises)
  then have "v = spec_normalize result s"
    using assms by (simp add: extract_text_returns)
  then show ?thesis
    by (cases result) (auto simp: spec_normalize_def split: option.splits)
qed

lemma extract_text_string:
  assumes "extract_text lim result = Inr v"
    and "case field ''text'' result of None \<Rightarrow> True | Some w \<Rightarrow> is_string w"
  shows "is_string v"
  using extract_text_value [OF assms(1)] assms(2) by auto

lemma json_dumps_string: "is_string v \<Longrightarrow> \<exists>t. json_dumps lim v = Inr t"
  by (cases v) simp_all

subsection \<open>The \<^verbatim>\<open>try\<close> body\<close>

text \<open>The two status messages always print, so the body is a chain of the three
  library calls, the extraction and the final \<^verbatim>\<open>json.dumps\<close>.\<close>

lemma snd_try_body:
  "snd (try_body E p s) =
     (case inference E p of
        Inl e \<Rightarrow> Some e
      | Inr result \<Rightarrow>
          (case extract_text (int_max_str_digits E) result of
             Inl e \<Rightarrow> Some e
           | Inr v \<Rightarrow>
               (case json_dumps (int_max_str_digits E) v of
                  Inl e \<Rightarrow> Some e
                | Inr t \<Rightarrow> None)))"
  by (simp add: try_body_def print_stderr_status_envelope print_stdout_def
      json_dumps_text_envelope inference_def Let_def split: sum.splits)

lemma stdout_try_body:
  "stdout (fst (try_body E p s)) =
     stdout s @ diverted E @
     (case snd (try_body E p s) of
        Some e \<Rightarrow> []
      | None \<Rightarrow>
          (case inference E p of
             Inl e \<Rightarrow> []
           | Inr result \<Rightarrow>
               (case extract_text (int_max_str_digits E) result of
                  Inl e \<Rightarrow> []
                | Inr v \<Rightarrow> [text_envelope v])))"
  by (simp add: try_body_def print_stderr_status_envelope print_stdout_def
      json_dumps_text_envelope inference_def diverted_def Let_def split: sum.splits)

lemma try_body_argv: "try_body (E\<lparr>argv := a\<rparr>) p s = try_body E p s"
  by (simp add: try_body_def print_stderr_def print_stdout_def Let_def cong: sum.case_cong)

subsection \<open>The run\<close>

lemma import_failure_argv: "import_failure (E\<lparr>argv := a\<rparr>) = import_failure E"
  by (simp add: import_failure_def cong: option.case_cong)

lemma path_exists_argv: "path_exists (E\<lparr>argv := a\<rparr>) p = path_exists E p"
  by (simp add: path_exists_def)

lemma error_exit_argv: "error_exit (E\<lparr>argv := a\<rparr>) m s = error_exit E m s"
  by (simp add: error_exit_run)

lemma import_handler_argv: "import_handler (E\<lparr>argv := a\<rparr>) e s = import_handler E e s"
  by (cases e) (simp_all add: error_exit_argv)

lemma import_failure_None:
  "import_failure E = None \<longleftrightarrow> import_transformers E = None \<and> import_PIL E = None"
  by (simp add: import_failure_def split: option.splits)

lemma script_main: "import_failure E = None \<Longrightarrow> script E = main E io0"
  by (simp add: script_def)

lemma script_import_error:
  "import_failure E = Some (ImportError m) \<Longrightarrow>
   script E =
     \<lparr>stdout = [error_envelope (''Missing dependencies: '' @ m
                 @ ''. Install with: pip install transformers pillow torch'')],
      stderr = [], calls = [], status = Exit 1\<rparr>"
  by (simp add: script_def error_exit_run io0_def)


lemma import_crash_failure:
  "import_crash E \<longleftrightarrow> (\<exists>m. import_failure E = Some (OtherException m))"
  by (auto simp: import_crash_def import_failure_def split: option.splits pyexn.splits)

lemma main_try:
  assumes "2 \<le> length (argv E)" and "path_exists E (argv E ! 1) = Inr True"
  shows "main E s =
           (case snd (try_body E (argv E ! 1) s) of
              None \<Rightarrow> finish (fst (try_body E (argv E ! 1) s)) (Exit 0)
            | Some e \<Rightarrow> error_exit E (''OCR processing failed: '' @ exn_str e)
                          (fst (try_body E (argv E ! 1) s)))"
  using assms by (simp add: main_def Let_def split: prod.splits option.splits)

lemma main_exists_crash:
  assumes "2 \<le> length (argv E)" and "path_exists E (argv E ! 1) = Inl e"
  shows "main E io0 = \<lparr>stdout = [], stderr = [], calls = [], status = Uncaught e\<rparr>"
  using assms by (simp add: main_def Let_def finish_def io0_def)

lemma script_raised:
  assumes "passes_checks E" and "raised E = Some e"
  shows "stdout (script E)
           = diverted E @ [error_envelope (''OCR processing failed: '' @ exn_str e)]"
    and "status (script E) = Exit 1"
proof -
  have m: "script E = error_exit E (''OCR processing failed: '' @ exn_str e)
                         (fst (try_body E (argv E ! 1) io0))"
    using assms
    by (simp add: passes_checks_def raised_def script_main import_failure_None main_try)
  have "stdout (fst (try_body E (argv E ! 1) io0)) = diverted E"
    using assms(2) by (simp add: stdout_try_body raised_def io0_def)
  then show "stdout (script E)
           = diverted E @ [error_envelope (''OCR processing failed: '' @ exn_str e)]"
    by (simp add: m error_exit_run)
  show "status (script E) = Exit 1"
    by (simp add: m error_exit_run)
qed

lemma script_returned:
  assumes "passes_checks E" and "raised E = None"
  shows "\<exists>result v. inference E (argv E ! 1) = Inr result \<and>
           extract_text (int_max_str_digits E) result = Inr v \<and>
           stdout (script E) = diverted E @ [text_envelope v]"
    and "status (script E) = Exit 0"
proof -
  have m: "script E = finish (fst (try_body E (argv E ! 1) io0)) (Exit 0)"
    using assms
    by (simp add: passes_checks_def raised_def script_main import_failure_None main_try)
  obtain result v where r: "inference E (argv E ! 1) = Inr result"
    and v: "extract_text (int_max_str_digits E) result = Inr v"
    using assms(2) by (auto simp: raised_def snd_try_body split: sum.splits)
  have "stdout (fst (try_body E (argv E ! 1) io0)) = diverted E @ [text_envelope v]"
    using assms(2) r v by (simp add: stdout_try_body raised_def io0_def)
  then show "\<exists>result v. inference E (argv E ! 1) = Inr result \<and>
           extract_text (int_max_str_digits E) result = Inr v \<and>
           stdout (script E) = diverted E @ [text_envelope v]"
    using r v by (simp add: m finish_def)
  show "status (script E) = Exit 0"
    by (simp add: m finish_def)
qed

lemma script_not_passing:
  assumes "\<not> import_crash E" and "\<not> exists_crash E" and "\<not> passes_checks E"
  shows "\<exists>m. script E =
           \<lparr>stdout = [error_envelope m], stderr = [], calls = [], status = Exit 1\<rparr>"
proof (cases "import_failure E")
  case None
  then have i: "import_transformers E = None" "import_PIL E = None"
    by (simp_all add: import_failure_None)
  show ?thesis
  proof (cases "length (argv E) < 2")
    case True
    then show ?thesis
      using None by (auto simp: script_main main_def error_exit_run io0_def)
  next
    case False
    with assms(2,3) i have "path_exists E (argv E ! 1) = Inr False"
      by (cases "path_exists E (argv E ! 1)") (auto simp: exists_crash_def passes_checks_def)
    with False show ?thesis
      using None by (auto simp: script_main main_def error_exit_run io0_def Let_def)
  qed
next
  case (Some e)
  with assms(1) obtain m where "e = ImportError m"
    by (cases e) (auto simp: import_crash_failure)
  with Some show ?thesis
    by (auto simp: script_import_error)
qed

text \<open>Unless an exception is raised where no handler is active, a run is one of two
  kinds.\<close>

lemma script_shape:
  assumes "\<not> import_crash E" and "\<not> exists_crash E"
  shows "(\<exists>m. stdout (script E) = [error_envelope m] \<and> status (script E) = Exit 1) \<or>
         (\<exists>m. stdout (script E) = diverted E @ [error_envelope m] \<and>
            status (script E) = Exit 1) \<or>
         (\<exists>result v. passes_checks E \<and> inference E (argv E ! 1) = Inr result \<and>
            extract_text (int_max_str_digits E) result = Inr v \<and>
            stdout (script E) = diverted E @ [text_envelope v] \<and>
            status (script E) = Exit 0)"
proof (cases "passes_checks E")
  case False
  with assms obtain m where
    "script E = \<lparr>stdout = [error_envelope m], stderr = [], calls = [], status = Exit 1\<rparr>"
    using script_not_passing by blast
  then show ?thesis by auto
next
  case True
  show ?thesis
  proof (cases "raised E")
    case None
    with True show ?thesis
      using script_returned [of E] by blast
  next
    case (Some e)
    with True show ?thesis
      using script_raised [of E e] by blast
  qed
qed

subsection \<open>The example invocations\<close>

lemma demo_env_fields:
  "argv (demo_env out) = [''ocr_extract.py'', ''/tmp/shot.png'']"
  "int_max_str_digits (demo_env out) = 4300"
  "stderr_open (demo_env out)"
  "import_transformers (demo_env out) = None"
  "import_PIL (demo_env out) = None"
  by (simp_all add: demo_env_def)

lemma split_on_absent: "c \<notin> set s \<Longrightarrow> split_on c s = [s]"
  by (induction s) auto

lemma pathlib_str_plain:
  assumes "CHR ''/'' \<notin> set s" and "s \<noteq> []" and "s \<noteq> ''.''"
  shows "pathlib_str s = s"
proof -
  have "dropWhile (\<lambda>c. c = CHR ''/'') s = s"
    using assms(1,2) by (cases s) auto
  then show ?thesis
    using assms by (simp add: pathlib_str_def split_on_absent join_def)
qed

lemma pathlib_str_empty: "pathlib_str [] = ''.''"
  by (simp add: pathlib_str_def join_def)

lemma pathlib_str_shot: "pathlib_str ''/tmp/shot.png'' = ''/tmp/shot.png''"
  by (simp add: pathlib_str_def join_def)

lemma demo_env_passes: "passes_checks (demo_env out)"
  by (simp add: passes_checks_def demo_env_def path_exists_def pathlib_str_shot demo_stat_def)

lemma demo_env_passes_closed: "passes_checks ((demo_env out)\<lparr>stderr_open := False\<rparr>)"
  by (simp add: passes_checks_def demo_env_def path_exists_def pathlib_str_shot demo_stat_def)

lemma demo_env_inference: "inference (demo_env out) ''/tmp/shot.png'' = out"
  by (simp add: inference_def demo_env_def demo_open_def)

lemma demo_env_diverted: "diverted (demo_env out) = []"
  by (simp add: diverted_def demo_env_def)

lemma bare_env_facts:
  "import_failure bare_env = None" "length (argv bare_env) = 1"
  "int_max_str_digits bare_env = 4300"
  "import_transformers bare_env = None" "import_PIL bare_env = None"
  by (simp_all add: bare_env_def demo_env_def import_failure_def)


lemma absent_env_facts:
  "import_failure absent_env = None"
  "import_transformers absent_env = None"
  "import_PIL absent_env = None"
  "argv absent_env = [''ocr_extract.py'', ''/tmp/does-not-exist.png'']"
  "int_max_str_digits absent_env = 4300"
  "path_exists absent_env ''/tmp/does-not-exist.png'' = Inr False"
  by (simp_all add: absent_env_def demo_env_def import_failure_def path_exists_def
      pathlib_str_def join_def demo_stat_def)

lemma long_path_env_facts:
  "import_failure long_path_env = None"
  "argv long_path_env = [''ocr_extract.py'', replicate 256 CHR ''a'']"
  "path_exists long_path_env (replicate 256 CHR ''a'')
     = Inl (OtherException (''[Errno 36] File name too long: ''
             @ repr_str (replicate 256 CHR ''a'')))"
proof -
  have ne: "replicate 256 CHR ''a'' \<noteq> t" if "length t \<noteq> 256" for t
    using that by (metis length_replicate)
  have "pathlib_str (replicate 256 CHR ''a'') = replicate 256 CHR ''a''"
    by (intro pathlib_str_plain ne) simp_all
  then show "path_exists long_path_env (replicate 256 CHR ''a'')
     = Inl (OtherException (''[Errno 36] File name too long: ''
             @ repr_str (replicate 256 CHR ''a'')))"
    by (simp add: long_path_env_def demo_env_def path_exists_def demo_stat_def ne)
qed (simp_all add: long_path_env_def demo_env_def import_failure_def)

lemma empty_path_env_facts:
  "import_failure empty_path_env = None"
  "import_transformers empty_path_env = None"
  "import_PIL empty_path_env = None"
  "argv empty_path_env = [''ocr_extract.py'', []]"
  "path_exists empty_path_env [] = Inr True"
  "os_stat empty_path_env [] = StatOSError ENOENT (''[Errno 2] No such file or directory: '' @ repr_str [])"
  by (simp_all add: empty_path_env_def demo_env_def import_failure_def path_exists_def
      pathlib_str_empty demo_stat_def)

lemma int_repr_below:
  assumes "\<bar>i\<bar> < 10 ^ k" and "k \<le> lim"
  shows "int_repr lim i = Inr (str_int i)"
proof -
  have "(10::int) ^ k \<le> 10 ^ lim"
    using assms(2) by (simp add: power_increasing)
  with assms(1) have "\<not> 10 ^ lim \<le> \<bar>i\<bar>"
    by linarith
  then show ?thesis
    by (simp add: int_repr_def)
qed

lemma int_repr_small:
  "int_repr 4300 42 = Inr ''42''" "int_repr 4300 2 = Inr ''2''" "int_repr 4300 1 = Inr ''1''"
  using int_repr_below [of 42 2 4300] int_repr_below [of 2 2 4300] int_repr_below [of 1 2 4300]
  by (simp_all add: str_int_def str_nat.simps digit_char_def)

lemma int_repr_power:
  "0 < lim \<Longrightarrow> int_repr lim (10 ^ lim) = Inl (OtherException (limit_message lim))"
  by (simp add: int_repr_def)

lemma huge_over_limit: "int_repr 4300 huge = Inl (OtherException (limit_message 4300))"
  unfolding huge_def by (rule int_repr_power) simp

lemma limit_message_4300:
  "limit_message 4300 =
     ''Exceeds the limit (4300 digits) for integer string conversion; ''
     @ ''use sys.set_int_max_str_digits() to increase the limit''"
  by (simp add: limit_message_def str_nat.simps digit_char_def)

lemma py_str_big_dict: "py_str 4300 big_dict = Inl (OtherException (limit_message 4300))"
  by (simp add: big_dict_def huge_over_limit repr_item_def)

section \<open>The claims\<close>




text \<open>
  Claim C2, as amended. For every invocation with no positional argument in which both
  libraries import, the program writes exactly the usage error to standard output and
  exits with status 1, whatever the file system and the model are: the argument check
  runs before the existence check, and after the import guard.
\<close>

theorem usage_error:
  assumes "import_failure E = None" and "length (argv E) < 2"
  shows \<open>script E =
           \<lparr>stdout = [error_envelope ''Usage: python3 ocr_extract.py <image_path>''],
            stderr = [], calls = [], status = Exit 1\<rparr> \<and>
         stdout_text E (script E)
           = [''{"error": "Usage: python3 ocr_extract.py <image_path>"}'']\<close>
proof -
  have r: "script E =
           \<lparr>stdout = [error_envelope ''Usage: python3 ocr_extract.py <image_path>''],
            stderr = [], calls = [], status = Exit 1\<rparr>"
    using assms by (simp add: script_main main_def error_exit_run io0_def)
  have \<open>json_text (int_max_str_digits E)
            (error_envelope ''Usage: python3 ocr_extract.py <image_path>'')
          = ''{"error": "Usage: python3 ocr_extract.py <image_path>"}''\<close>
    by (simp add: json_text_error_envelope json_string_def json_escape_char_def)
  with r show ?thesis
    by (simp add: stdout_text_def)
qed

theorem usage_error_witness:
  \<open>stdout_text bare_env (script bare_env)
     = [''{"error": "Usage: python3 ocr_extract.py <image_path>"}'']
   \<and> status (script bare_env) = Exit 1\<close>
  using usage_error [of bare_env] by (auto simp: bare_env_facts)

text \<open>Claim C2 as stated fails: with no argument and \<^verbatim>\<open>transformers\<close> not installed,
  the import guard answers first, and the output is not the usage error.\<close>

theorem usage_error_counterexample:
  \<open>length (argv (bare_env\<lparr>import_transformers := Some missing_transformers\<rparr>)) < 2 \<and>
   stdout_text bare_env (script (bare_env\<lparr>import_transformers := Some missing_transformers\<rparr>))
     \<noteq> [''{"error": "Usage: python3 ocr_extract.py <image_path>"}''] \<and>
   stdout_text bare_env (script (bare_env\<lparr>import_transformers := Some missing_transformers\<rparr>))
     = [''{"error": "Missing dependencies: No module named 'transformers'. Install with: pip install transformers pillow torch"}'']\<close>
  by (simp add: script_def import_failure_def bare_env_def demo_env_def
      missing_transformers_def error_exit_run io0_def stdout_text_def
      json_text_error_envelope json_string_def json_escape_char_def)

text \<open>
  Claim C3, as amended. For every invocation in which an import of the required
  libraries raises \<^verbatim>\<open>ImportError\<close> (the first import does, or the first succeeds and
  the second does), the program writes the missing-dependencies error with the
  exception's text and exits with status 1; the command line has no part in it, the
  guard running before the arguments are read.
\<close>

theorem missing_dependencies:
  assumes "import_transformers E = Some (ImportError m) \<or>
           (import_transformers E = None \<and> import_PIL E = Some (ImportError m))"
  shows \<open>script E =
           \<lparr>stdout = [error_envelope (''Missing dependencies: '' @ m
                       @ ''. Install with: pip install transformers pillow torch'')],
            stderr = [], calls = [], status = Exit 1\<rparr> \<and>
         stdout_text E (script E)
           = [''{"error": '' @ json_string (''Missing dependencies: '' @ m
                 @ ''. Install with: pip install transformers pillow torch'') @ ''}''] \<and>
         script (E\<lparr>argv := a\<rparr>) = script E\<close>
proof -
  have i: "import_failure E = Some (ImportError m)"
    using assms by (auto simp: import_failure_def)
  then have "import_failure (E\<lparr>argv := a\<rparr>) = Some (ImportError m)"
    by (simp add: import_failure_argv)
  then show ?thesis
    using i by (simp add: script_import_error stdout_text_def json_text_error_envelope)
qed

theorem missing_dependencies_witness:
  \<open>stdout_text bare_env (script (bare_env\<lparr>import_transformers := Some missing_transformers\<rparr>))
     = [''{"error": "Missing dependencies: No module named 'transformers'. Install with: pip install transformers pillow torch"}'']
   \<and> status (script (bare_env\<lparr>import_transformers := Some missing_transformers\<rparr>)) = Exit 1
   \<and> stdout_text bare_env (script (bare_env\<lparr>import_PIL := Some missing_PIL\<rparr>))
     = [''{"error": "Missing dependencies: No module named 'PIL'. Install with: pip install transformers pillow torch"}'']
   \<and> status (script (bare_env\<lparr>import_PIL := Some missing_PIL\<rparr>)) = Exit 1
   \<and> script (bare_env\<lparr>import_PIL := Some missing_PIL,
                        argv := [''ocr_extract.py'', ''/tmp/shot.png'']\<rparr>)
       = script (bare_env\<lparr>import_PIL := Some missing_PIL\<rparr>)\<close>
  using
    missing_dependencies [of "bare_env\<lparr>import_transformers := Some missing_transformers\<rparr>"
      "''No module named '' @ [CHR 0x27] @ ''transformers'' @ [CHR 0x27]"
      "[''ocr_extract.py'', ''/tmp/shot.png'']"]
    missing_dependencies [of "bare_env\<lparr>import_PIL := Some missing_PIL\<rparr>"
      "''No module named '' @ [CHR 0x27] @ ''PIL'' @ [CHR 0x27]"
      "[''ocr_extract.py'', ''/tmp/shot.png'']"]
  by (auto simp: bare_env_facts missing_transformers_def missing_PIL_def
      stdout_text_def json_string_def json_escape_char_def)

text \<open>Claim C3 as stated fails: a library whose import raises another exception than
  \<^verbatim>\<open>ImportError\<close> cannot be imported either, and then nothing is emitted; the
  exception is left uncaught.\<close>

theorem missing_dependencies_counterexample:
  "stdout (script (bare_env\<lparr>import_transformers := Some broken_transformers\<rparr>)) = [] \<and>
   status (script (bare_env\<lparr>import_transformers := Some broken_transformers\<rparr>))
     = Uncaught broken_transformers \<and>
   stdout (script (bare_env\<lparr>import_PIL := Some broken_transformers\<rparr>)) = [] \<and>
   status (script (bare_env\<lparr>import_PIL := Some broken_transformers\<rparr>))
     = Uncaught broken_transformers"
  by (simp add: script_def import_failure_def broken_transformers_def bare_env_def
      demo_env_def finish_def io0_def)

text \<open>
  Claim C4, as amended. For every invocation in which each import succeeds or raises
  \<^verbatim>\<open>ImportError\<close>, the existence check returns without raising, and \<^verbatim>\<open>sys.stderr\<close>
  is a stream, exactly one object is written to standard output, and it has exactly one
  key: it is \<^verbatim>\<open>{"error": string}\<close> or \<^verbatim>\<open>{"text": value}\<close>. The value under \<^verbatim>\<open>text\<close>
  is a string whenever the model's result has no \<^verbatim>\<open>text\<close> field of its own or a
  string there, and then the contract of the specification holds as worded.
\<close>

theorem one_envelope_written:
  assumes "\<not> import_crash E" and "\<not> exists_crash E" and "stderr_open E"
  shows "one_envelope (script E) \<and> (text_field_is_string E \<longrightarrow> stdout_contract (script E))"
proof -
  have d: "diverted E = []"
    using assms(3) by (rule diverted_open)
  consider (err) m where "stdout (script E) = [error_envelope m]"
    | (ok) result v where "passes_checks E" "inference E (argv E ! 1) = Inr result"
        "extract_text (int_max_str_digits E) result = Inr v"
        "stdout (script E) = [text_envelope v]"
    using script_shape [OF assms(1,2)] d by auto
  then show ?thesis
  proof cases
    case err
    then show ?thesis
      by (simp add: one_envelope_def stdout_contract_def envelope_error string_envelope_error)
  next
    case ok
    have "is_string v" if "text_field_is_string E"
      using that ok(1,2) extract_text_string [OF ok(3)]
      by (simp add: text_field_is_string_def)
    with ok(4) show ?thesis
      by (simp add: one_envelope_def stdout_contract_def envelope_text string_envelope_text)
  qed
qed

theorem one_envelope_written_witness:
  \<open>text_field_is_string (demo_env (Inr tensor)) \<and>
   one_envelope (script (demo_env (Inr tensor))) \<and>
   stdout_contract (script (demo_env (Inr tensor))) \<and>
   stdout (script (demo_env (Inr tensor))) = [text_envelope (PyStr ''tensor([7])'')] \<and>
   one_envelope (script (demo_env (Inr (PyDict [(PyStr ''text'', PyInt 42)])))) \<and>
   one_envelope (script absent_env) \<and>
   stdout_contract (script absent_env)\<close>
proof -
  have c: "\<not> import_crash (demo_env out)" "\<not> exists_crash (demo_env out)" for out
    using demo_env_passes [of out]
    by (simp_all add: import_crash_def exists_crash_def passes_checks_def)
  have a: "\<not> import_crash absent_env" "\<not> exists_crash absent_env" "stderr_open absent_env"
    "\<not> passes_checks absent_env"
    by (simp_all add: import_crash_def exists_crash_def passes_checks_def absent_env_facts)
      (simp add: absent_env_def demo_env_def)
  have t: "text_field_is_string (demo_env (Inr tensor))"
    by (simp add: text_field_is_string_def demo_env_fields demo_env_inference tensor_def)
  have "raised (demo_env (Inr tensor)) = None"
    by (simp add: raised_def snd_try_body demo_env_fields demo_env_inference tensor_def
        json_string_def)
  from script_returned(1) [OF demo_env_passes this]
  have s: "stdout (script (demo_env (Inr tensor))) = [text_envelope (PyStr ''tensor([7])'')]"
    by (auto simp: demo_env_fields demo_env_inference demo_env_diverted tensor_def)
  show ?thesis
    using one_envelope_written [OF c(1) c(2) demo_env_fields(3), of "Inr tensor"]
      one_envelope_written [OF c(1) c(2) demo_env_fields(3),
        of "Inr (PyDict [(PyStr ''text'', PyInt 42)])"]
      one_envelope_written [OF a(1,2,3)] t s a(4)
    by (simp add: text_field_is_string_def)
qed

text \<open>
  Claim C4 as stated fails in five ways: a model that returns \<^verbatim>\<open>{"text": 42}\<close> has the
  number written under \<^verbatim>\<open>text\<close>; one that returns \<^verbatim>\<open>{"text": nan}\<close> has \<^verbatim>\<open>NaN\<close>
  written, which is not JSON; an import that raises another exception than
  \<^verbatim>\<open>ImportError\<close>, and an existence check that raises \<^verbatim>\<open>OSError\<close>, end the script with
  nothing on standard output; and with \<^verbatim>\<open>sys.stderr\<close> not a stream the two status
  messages are written to standard output before the result.
\<close>

theorem stdout_contract_counterexample:
  \<open>\<not> stdout_contract (script (demo_env (Inr (PyDict [(PyStr ''text'', PyInt 42)])))) \<and>
   stdout_text (demo_env (Inr PyNone))
      (script (demo_env (Inr (PyDict [(PyStr ''text'', PyInt 42)]))))
     = [''{"text": 42}''] \<and>
   \<not> stdout_contract (script (demo_env (Inr (PyDict [(PyStr ''text'', PyFloat NaN)])))) \<and>
   stdout_text (demo_env (Inr PyNone))
      (script (demo_env (Inr (PyDict [(PyStr ''text'', PyFloat NaN)]))))
     = [''{"text": NaN}''] \<and>
   \<not> stdout_contract (script (bare_env\<lparr>import_transformers := Some broken_transformers\<rparr>)) \<and>
   stdout (script (bare_env\<lparr>import_transformers := Some broken_transformers\<rparr>)) = [] \<and>
   \<not> stdout_contract (script long_path_env) \<and>
   stdout (script long_path_env) = [] \<and>
   \<not> stdout_contract (script ((demo_env (Inr (PyStr ''WORLD'')))\<lparr>stderr_open := False\<rparr>)) \<and>
   stdout (script ((demo_env (Inr (PyStr ''WORLD'')))\<lparr>stderr_open := False\<rparr>))
     = [status_envelope ''Loading DeepSeek-OCR model...'',
        status_envelope ''Processing image...'',
        text_envelope (PyStr ''WORLD'')]\<close>
proof -
  let ?E42 = "demo_env (Inr (PyDict [(PyStr ''text'', PyInt 42)]))"
  let ?Enan = "demo_env (Inr (PyDict [(PyStr ''text'', PyFloat NaN)]))"
  let ?Eclosed = "(demo_env (Inr (PyStr ''WORLD'')))\<lparr>stderr_open := False\<rparr>"
  have "raised ?E42 = None"
    by (simp add: raised_def snd_try_body demo_env_fields demo_env_inference dict_get_def
        int_repr_small repr_item_def)
  from script_returned(1) [OF demo_env_passes this]
  have s42: "stdout (script ?E42) = [text_envelope (PyInt 42)]"
    by (auto simp: demo_env_fields demo_env_inference demo_env_diverted dict_get_def
        int_repr_small repr_item_def)
  have t42: \<open>json_text 4300 (text_envelope (PyInt 42)) = ''{"text": 42}''\<close>
    by (simp add: json_text_text_envelope int_repr_small)
  have "raised ?Enan = None"
    by (simp add: raised_def snd_try_body demo_env_fields demo_env_inference dict_get_def
        repr_item_def)
  from script_returned(1) [OF demo_env_passes this]
  have snan: "stdout (script ?Enan) = [text_envelope (PyFloat NaN)]"
    by (auto simp: demo_env_fields demo_env_inference demo_env_diverted dict_get_def
        repr_item_def)
  have tnan: \<open>json_text 4300 (text_envelope (PyFloat NaN)) = ''{"text": NaN}''\<close>
    by (simp add: json_text_text_envelope)
  have sb: "script (bare_env\<lparr>import_transformers := Some broken_transformers\<rparr>)
      = \<lparr>stdout = [], stderr = [], calls = [], status = Uncaught broken_transformers\<rparr>"
    by (simp add: script_def import_failure_def broken_transformers_def finish_def io0_def)
  have sl: "stdout (script long_path_env) = []"
    using main_exists_crash [of long_path_env] long_path_env_facts(3)
    by (simp add: script_main long_path_env_facts)
  have pc: "passes_checks ?Eclosed"
    by (rule demo_env_passes_closed)
  have "raised ?Eclosed = None"
    by (simp add: raised_def snd_try_body inference_def demo_env_def demo_open_def
        json_string_def)
  from script_returned(1) [OF pc this]
  have sc: "stdout (script ?Eclosed)
     = [status_envelope ''Loading DeepSeek-OCR model...'',
        status_envelope ''Processing image...'',
        text_envelope (PyStr ''WORLD'')]"
    by (auto simp: inference_def diverted_def demo_env_def demo_open_def)
  show ?thesis
    using s42 t42 snan tnan sb sl sc
    by (simp add: stdout_contract_def stdout_text_def demo_env_fields text_envelope_def)
qed

text \<open>
  Claim C5, as amended. For every invocation in which each import succeeds or raises
  \<^verbatim>\<open>ImportError\<close> and the existence check returns without raising, the process exits
  with status 0 if and only if an object with the \<^verbatim>\<open>text\<close> key is on standard output,
  and with a non-zero status if and only if an object with the \<^verbatim>\<open>error\<close> key is.
\<close>

theorem exit_code_matches:
  assumes "\<not> import_crash E" and "\<not> exists_crash E"
  shows "exit_contract (script E)"
proof -
  consider (err) pre m where "stdout (script E) = pre @ [error_envelope m]"
      "status (script E) = Exit 1" "pre = [] \<or> pre = diverted E"
    | (ok) v where "stdout (script E) = diverted E @ [text_envelope v]"
      "status (script E) = Exit 0"
    using script_shape [OF assms] by (metis append_Nil)
  then show ?thesis
  proof cases
    case err
    then have "\<not> list_ex (has_key ''text'') pre" "\<not> list_ex (has_key ''error'') pre"
      using list_ex_diverted [of E] by auto
    with err(1,2) show ?thesis
      by (simp add: exit_contract_def error_envelope_def)
  next
    case ok
    then show ?thesis
      using list_ex_diverted [of E] by (simp add: exit_contract_def text_envelope_def)
  qed
qed

theorem exit_code_matches_witness:
  "exit_contract (script (demo_env (Inr tensor))) \<and>
   status (script (demo_env (Inr tensor))) = Exit 0 \<and>
   exit_contract (script absent_env) \<and>
   status (script absent_env) = Exit 1 \<and>
   exit_contract (script ((demo_env (Inr tensor))\<lparr>stderr_open := False\<rparr>))"
proof -
  have c: "\<not> import_crash (demo_env out)" "\<not> exists_crash (demo_env out)" for out
    using demo_env_passes [of out]
    by (simp_all add: import_crash_def exists_crash_def passes_checks_def)
  have d: "\<not> import_crash ((demo_env out)\<lparr>stderr_open := False\<rparr>)"
    "\<not> exists_crash ((demo_env out)\<lparr>stderr_open := False\<rparr>)" for out
    using demo_env_passes_closed [of out]
    by (simp_all add: import_crash_def exists_crash_def passes_checks_def)
  have a: "\<not> import_crash absent_env" "\<not> exists_crash absent_env"
    by (simp_all add: import_crash_def exists_crash_def absent_env_facts)
  have "raised (demo_env (Inr tensor)) = None"
    by (simp add: raised_def snd_try_body demo_env_fields demo_env_inference tensor_def
        json_string_def)
  from script_returned(2) [OF demo_env_passes this]
  have s: "status (script (demo_env (Inr tensor))) = Exit 0" .
  have "status (script absent_env) = Exit 1"
    by (simp add: script_main main_def absent_env_facts error_exit_run)
  with s show ?thesis
    using exit_code_matches [OF c, of "Inr tensor"] exit_code_matches [OF a]
      exit_code_matches [OF d, of "Inr tensor"]
    by simp
qed

text \<open>Claim C5 as stated fails when an import raises another exception than
  \<^verbatim>\<open>ImportError\<close> and when the existence check raises \<^verbatim>\<open>OSError\<close>: the status is 1
  and no object with the \<^verbatim>\<open>error\<close> key is written.\<close>

theorem exit_contract_counterexample:
  "\<not> exit_contract (script (bare_env\<lparr>import_PIL := Some broken_transformers\<rparr>)) \<and>
   exit_status (status (script (bare_env\<lparr>import_PIL := Some broken_transformers\<rparr>))) = 1 \<and>
   stdout (script (bare_env\<lparr>import_PIL := Some broken_transformers\<rparr>)) = [] \<and>
   \<not> exit_contract (script long_path_env) \<and>
   exit_status (status (script long_path_env)) = 1 \<and>
   stdout (script long_path_env) = []"
proof -
  have "script (bare_env\<lparr>import_PIL := Some broken_transformers\<rparr>)
      = \<lparr>stdout = [], stderr = [], calls = [], status = Uncaught broken_transformers\<rparr>"
    by (simp add: script_def import_failure_def broken_transformers_def bare_env_facts
        finish_def io0_def)
  moreover have "script long_path_env
      = \<lparr>stdout = [], stderr = [], calls = [],
         status = Uncaught (OtherException (''[Errno 36] File name too long: ''
                    @ repr_str (replicate 256 CHR ''a'')))\<rparr>"
    using main_exists_crash [of long_path_env] long_path_env_facts(3)
    by (simp add: script_main long_path_env_facts)
  ultimately show ?thesis
    by (simp add: exit_contract_def)
qed

text \<open>
  Claim C6. Every failure raised during model load, image decode or inference, and
  every other exception that ends the \<^verbatim>\<open>try\<close> body, is caught by the handler of
  \<^verbatim>\<open>main\<close>: the processing error with the failure's text is written to standard
  output, after the status messages that land there and alone when \<^verbatim>\<open>sys.stderr\<close> is
  a stream; the status is 1, and nothing is left uncaught.
\<close>

theorem processing_failure_reported:
  assumes "passes_checks E"
    and "inference E (argv E ! 1) = Inl e \<or> raised E = Some e"
  shows \<open>stdout (script E)
           = diverted E @ [error_envelope (''OCR processing failed: '' @ exn_str e)] \<and>
         (stderr_open E \<longrightarrow>
            stdout (script E) = [error_envelope (''OCR processing failed: '' @ exn_str e)] \<and>
            stdout_text E (script E)
              = [''{"error": '' @ json_string (''OCR processing failed: '' @ exn_str e)
                   @ ''}'']) \<and>
         status (script E) = Exit 1\<close>
proof -
  have r: "raised E = Some e"
    using assms(2) by (auto simp: raised_def snd_try_body)
  have o: "stdout (script E)
             = diverted E @ [error_envelope (''OCR processing failed: '' @ exn_str e)]"
    using assms(1) r by (rule script_raised(1))
  have "status (script E) = Exit 1"
    using assms(1) r by (rule script_raised(2))
  with o show ?thesis
    by (simp add: diverted_open stdout_text_single json_text_error_envelope)
qed

text \<open>The example of the specification, a model call that raises with the message
  \<^verbatim>\<open>out of memory\<close>; a result whose \<^verbatim>\<open>text\<close> field \<^verbatim>\<open>json.dumps\<close> refuses; and a
  model that fails to load.\<close>

theorem processing_failure_reported_witness:
  \<open>stdout_text (demo_env (Inl (OtherException ''out of memory'')))
      (script (demo_env (Inl (OtherException ''out of memory''))))
     = [''{"error": "OCR processing failed: out of memory"}''] \<and>
   status (script (demo_env (Inl (OtherException ''out of memory'')))) = Exit 1 \<and>
   stdout_text (demo_env (Inr (PyDict [(PyStr ''text'', tensor)])))
      (script (demo_env (Inr (PyDict [(PyStr ''text'', tensor)]))))
     = [''{"error": "OCR processing failed: Object of type Tensor is not JSON serializable"}''] \<and>
   status (script (demo_env (Inr (PyDict [(PyStr ''text'', tensor)])))) = Exit 1 \<and>
   stdout_text ((demo_env (Inr PyNone))\<lparr>from_pretrained := Inl (OtherException ''no network'')\<rparr>)
      (script ((demo_env (Inr PyNone))\<lparr>from_pretrained := Inl (OtherException ''no network'')\<rparr>))
     = [''{"error": "OCR processing failed: no network"}'']\<close>
proof -
  let ?E = "(demo_env (Inr PyNone))\<lparr>from_pretrained := Inl (OtherException ''no network'')\<rparr>"
  have p: "passes_checks ?E"
    using demo_env_passes [of "Inr PyNone"] by (simp add: passes_checks_def path_exists_def)
  have i: "inference ?E (argv ?E ! 1) = Inl (OtherException ''no network'')"
    by (simp add: inference_def)
  have o: "stderr_open ?E"
    by (simp add: demo_env_fields)
  have r: "raised (demo_env (Inr (PyDict [(PyStr ''text'', tensor)])))
             = Some (OtherException ''Object of type Tensor is not JSON serializable'')"
    by (simp add: raised_def snd_try_body demo_env_inference demo_env_fields
        dict_get_def tensor_def repr_item_def)
  show ?thesis
    using
      processing_failure_reported [OF demo_env_passes disjI1,
        of "Inl (OtherException ''out of memory'')" "OtherException ''out of memory''"]
      processing_failure_reported [OF demo_env_passes disjI2 [OF r]]
      processing_failure_reported [OF p disjI1 [OF i]] o
    by (auto simp: demo_env_inference demo_env_fields json_string_def json_escape_char_def)
qed

text \<open>
  Claim C7, as amended. For every invocation that passes the import guard and has a
  positional argument for which \<^verbatim>\<open>Path(image_path).exists()\<close> returns false (the
  \<^verbatim>\<open>os.stat\<close> of the path as \<^verbatim>\<open>pathlib\<close> writes it fails with an error that means
  the path is not there), the program writes the not-found error with the argument as
  given and exits with status 1; it makes no library call and prints no status
  message, so neither model load nor inference is attempted.
\<close>

theorem image_not_found:
  assumes "import_transformers E = None" and "import_PIL E = None"
    and "2 \<le> length (argv E)"
    and "path_exists E (argv E ! 1) = Inr False"
  shows \<open>script E =
           \<lparr>stdout = [error_envelope (''Image file not found: '' @ argv E ! 1)],
            stderr = [], calls = [], status = Exit 1\<rparr> \<and>
         stdout_text E (script E)
           = [''{"error": '' @ json_string (''Image file not found: '' @ argv E ! 1) @ ''}'']\<close>
proof -
  have "import_failure E = None"
    using assms(1,2) by (simp add: import_failure_None)
  then have "script E =
           \<lparr>stdout = [error_envelope (''Image file not found: '' @ argv E ! 1)],
            stderr = [], calls = [], status = Exit 1\<rparr>"
    using assms(3,4) by (simp add: script_main main_def error_exit_run io0_def)
  then show ?thesis
    by (simp add: stdout_text_def json_text_error_envelope)
qed

theorem image_not_found_witness:
  \<open>os_stat absent_env ''/tmp/does-not-exist.png''
     = StatOSError ENOENT (''[Errno 2] No such file or directory: ''
         @ repr_str ''/tmp/does-not-exist.png'') \<and>
   stdout_text absent_env (script absent_env)
     = [''{"error": "Image file not found: /tmp/does-not-exist.png"}''] \<and>
   status (script absent_env) = Exit 1 \<and>
   calls (script absent_env) = [] \<and>
   stderr (script absent_env) = []\<close>
proof -
  have "os_stat absent_env ''/tmp/does-not-exist.png''
     = StatOSError ENOENT (''[Errno 2] No such file or directory: ''
         @ repr_str ''/tmp/does-not-exist.png'')"
    by (simp add: absent_env_def demo_env_def demo_stat_def)
  then show ?thesis
    using image_not_found [of absent_env]
    by (auto simp: absent_env_facts json_string_def json_escape_char_def)
qed

text \<open>
  Claim C7 as stated fails twice. For a path of 256 letters, which is not on disk,
  \<^verbatim>\<open>os.stat\<close> fails with the error that the name is too long, \<^verbatim>\<open>Path.exists\<close> raises
  again what no handler catches, and nothing is written. For the empty path, which is
  not on disk either, \<^verbatim>\<open>pathlib\<close> tests the current directory, the check passes and
  the model load is attempted.
\<close>

theorem image_not_found_counterexample:
  \<open>os_stat long_path_env (argv long_path_env ! 1) \<noteq> StatOk \<and>
   stdout (script long_path_env) = [] \<and>
   status (script long_path_env)
     = Uncaught (OtherException (''[Errno 36] File name too long: ''
                   @ repr_str (replicate 256 CHR ''a''))) \<and>
   os_stat empty_path_env (argv empty_path_env ! 1) \<noteq> StatOk \<and>
   calls (script empty_path_env) = [FromPretrained, ImageOpen []] \<and>
   stdout (script empty_path_env)
     = [error_envelope (''OCR processing failed: [Errno 2] No such file or directory: ''
          @ [CHR 0x27, CHR 0x27])]\<close>
proof -
  have ne: "replicate 256 CHR ''a'' \<noteq> t" if "length t \<noteq> 256" for t
    using that by (metis length_replicate)
  have l: "os_stat long_path_env (argv long_path_env ! 1) \<noteq> StatOk"
    by (simp add: long_path_env_def demo_env_def demo_stat_def ne)
  have sl: "script long_path_env
      = \<lparr>stdout = [], stderr = [], calls = [],
         status = Uncaught (OtherException (''[Errno 36] File name too long: ''
                    @ repr_str (replicate 256 CHR ''a'')))\<rparr>"
    using main_exists_crash [of long_path_env] long_path_env_facts(3)
    by (simp add: script_main long_path_env_facts)
  have e: "os_stat empty_path_env (argv empty_path_env ! 1) \<noteq> StatOk"
    by (simp add: empty_path_env_facts)
  have se: "script empty_path_env
      = \<lparr>stdout = [error_envelope (''OCR processing failed: [Errno 2] No such file or directory: ''
                      @ [CHR 0x27, CHR 0x27])],
         stderr = [status_envelope ''Loading DeepSeek-OCR model...'',
                   status_envelope ''Processing image...''],
         calls = [FromPretrained, ImageOpen []], status = Exit 1\<rparr>"
    by (simp add: script_main main_def empty_path_env_facts)
      (simp add: try_body_def print_stderr_status_envelope error_exit_run io0_def
        empty_path_env_def demo_env_def demo_open_def repr_str_def Let_def)
  show ?thesis
    using l sl e se by simp
qed

text \<open>
  Claim C8, as amended. The normalization returns a value for every result whose
  string representation can be taken and raises what taking it raises otherwise; for a
  mapping the representation is taken even when the \<^verbatim>\<open>text\<close> key is present. The
  value returned is a string, except for a mapping whose \<^verbatim>\<open>text\<close> field is present and
  is not a string, which gives that field unchanged. An exception of the normalization
  is caught by the handler of \<^verbatim>\<open>main\<close> and reported as a processing failure with status
  1; and once the normalization has returned a string, nothing in the rest of the
  \<^verbatim>\<open>try\<close> body raises and the run exits with status 0.
\<close>

theorem extract_text_outcome:
  "(extract_text lim result = Inl e \<longleftrightarrow> py_str lim result = Inl e) \<and>
   (extract_text lim result = Inr v \<longrightarrow>
      is_string v \<or> (field ''text'' result = Some v \<and> \<not> is_string v)) \<and>
   (passes_checks E \<longrightarrow> inference E (argv E ! 1) = Inr result \<longrightarrow>
    extract_text (int_max_str_digits E) result = Inl e \<longrightarrow>
      stdout (script E)
        = diverted E @ [error_envelope (''OCR processing failed: '' @ exn_str e)] \<and>
      status (script E) = Exit 1) \<and>
   (passes_checks E \<longrightarrow> inference E (argv E ! 1) = Inr result \<longrightarrow>
    extract_text (int_max_str_digits E) result = Inr v \<longrightarrow> is_string v \<longrightarrow>
      raised E = None \<and> status (script E) = Exit 0)"
proof (intro conjI impI)
  show "extract_text lim result = Inl e \<longleftrightarrow> py_str lim result = Inl e"
    by (rule extract_text_Inl)
  show "is_string v \<or> (field ''text'' result = Some v \<and> \<not> is_string v)"
    if "extract_text lim result = Inr v"
    using that by (rule extract_text_value)
next
  assume p: "passes_checks E" and i: "inference E (argv E ! 1) = Inr result"
    and x: "extract_text (int_max_str_digits E) result = Inl e"
  have r: "raised E = Some e"
    using i x by (simp add: raised_def snd_try_body)
  show "stdout (script E)
        = diverted E @ [error_envelope (''OCR processing failed: '' @ exn_str e)]"
    using p r by (rule script_raised(1))
  show "status (script E) = Exit 1"
    using p r by (rule script_raised(2))
next
  assume p: "passes_checks E" and i: "inference E (argv E ! 1) = Inr result"
    and x: "extract_text (int_max_str_digits E) result = Inr v" and s: "is_string v"
  obtain t where "json_dumps (int_max_str_digits E) v = Inr t"
    using json_dumps_string [OF s] by blast
  with i x show r: "raised E = None"
    by (simp add: raised_def snd_try_body)
  show "status (script E) = Exit 0"
    using p r by (rule script_returned(2))
qed

theorem extract_text_outcome_witness:
  "extract_text 4300 tensor = Inr (PyStr ''tensor([7])'') \<and>
   raised (demo_env (Inr tensor)) = None \<and>
   status (script (demo_env (Inr tensor))) = Exit 0 \<and>
   py_str 4300 big_dict = Inl (OtherException (limit_message 4300)) \<and>
   stdout (script (demo_env (Inr big_dict)))
     = [error_envelope (''OCR processing failed: '' @ limit_message 4300)] \<and>
   status (script (demo_env (Inr big_dict))) = Exit 1"
proof -
  have t: "extract_text 4300 tensor = Inr (PyStr ''tensor([7])'')"
    by (simp add: tensor_def)
  have b: "extract_text 4300 big_dict = Inl (OtherException (limit_message 4300))"
    using extract_text_outcome [of 4300 big_dict "OtherException (limit_message 4300)"
        PyNone "demo_env (Inr big_dict)", THEN conjunct1] py_str_big_dict
    by simp
  show ?thesis
    using
      extract_text_outcome [of 4300 tensor "OtherException []" "PyStr ''tensor([7])''"
        "demo_env (Inr tensor)"]
      extract_text_outcome [of 4300 big_dict "OtherException (limit_message 4300)" PyNone
        "demo_env (Inr big_dict)"]
      t b py_str_big_dict
    by (simp add: demo_env_passes demo_env_inference demo_env_fields demo_env_diverted)
qed

text \<open>Claim C8 as stated fails on both counts: for the mapping \<^verbatim>\<open>{"text": 42}\<close> the
  normalization gives the integer 42, which is not a text value; and for a mapping
  with a \<^verbatim>\<open>text\<close> field and an integer of 4301 digits it raises.\<close>

theorem extract_text_counterexample:
  "extract_text 4300 (PyDict [(PyStr ''text'', PyInt 42)]) = Inr (PyInt 42) \<and>
   \<not> is_string (PyInt 42) \<and>
   field ''text'' big_dict = Some (PyStr ''hi'') \<and>
   extract_text 4300 big_dict = Inl (OtherException (limit_message 4300))"
proof -
  have "extract_text 4300 big_dict = Inl (OtherException (limit_message 4300))"
    using py_str_big_dict by (rule extract_text_raises)
  then show ?thesis
    by (simp add: dict_get_def int_repr_small repr_item_def big_dict_def)
qed



text \<open>
  Claim C10. Extra positional arguments are ignored: two invocations in the same
  environment whose command lines both have a first positional argument, and the same
  one, have the same run, whatever the program name and the arguments after the first
  are.
\<close>

theorem extra_arguments_ignored:
  assumes "2 \<le> length a" and "2 \<le> length b" and "a ! 1 = b ! 1"
  shows "script (E\<lparr>argv := a\<rparr>) = script (E\<lparr>argv := b\<rparr>)"
proof -
  have "main (E\<lparr>argv := a\<rparr>) io0 = main (E\<lparr>argv := b\<rparr>) io0"
    using assms
    by (simp add: main_def try_body_argv path_exists_argv error_exit_argv Let_def
        split: sum.splits prod.splits option.splits)
  then show ?thesis
    by (simp add: script_def import_failure_argv import_handler_argv split: option.splits)
qed

theorem extra_arguments_ignored_witness:
  "script ((demo_env (Inr tensor))
            \<lparr>argv := [''ocr_extract.py'', ''/tmp/shot.png'', ''--fast'', ''/tmp/other.png'']\<rparr>)
   = script ((demo_env (Inr tensor))\<lparr>argv := [''./ocr_extract.py'', ''/tmp/shot.png'']\<rparr>)"
  using extra_arguments_ignored [of
      "[''ocr_extract.py'', ''/tmp/shot.png'', ''--fast'', ''/tmp/other.png'']"
      "[''./ocr_extract.py'', ''/tmp/shot.png'']" "demo_env (Inr tensor)"]
  by simp

end
